theory Spec2Isabelle
  imports Main
begin

section \<open>JavaScript values and the operations the scripts use on them\<close>

text \<open>
  The scripts \<^verbatim>\<open>src/flow-delete.js\<close> and \<^verbatim>\<open>src/flowDelete.js\<close> work on the
  objects that \<^verbatim>\<open>XMLParser.parse\<close> and \<^verbatim>\<open>JSON.parse\<close> return. Such a value is
  \<^verbatim>\<open>undefined\<close>, \<^verbatim>\<open>null\<close>, a boolean, a number, a string, an array or an object.
  An object is the list of its own properties in insertion order (the order in which
  \<^verbatim>\<open>XMLBuilder.build\<close> visits them). An array carries, next to its elements, the
  named properties that an assignment such as \<^verbatim>\<open>arr.types = v\<close> adds to it.

  A number is \<open>Num n\<close> when it is the integer \<open>n\<close> and \<open>n\<close> is a safe integer
  (\<open>\<bar>n\<bar> < 2 ^ 53\<close>, with \<^verbatim>\<open>-0\<close> as \<open>Num 0\<close>): these are the numbers that the language
  prints as the decimal digits of their value. Every other number (a fraction, an
  integer from \<open>2 ^ 53\<close> on, \<^verbatim>\<open>NaN\<close>, an infinity) is \<open>NumStr s\<close>, where \<open>s\<close> is the
  text that \<^verbatim>\<open>String(x)\<close> gives for it, such as \<^verbatim>\<open>1.5\<close>, \<^verbatim>\<open>1e+21\<close> or \<^verbatim>\<open>NaN\<close>; that
  text determines the number. A \<open>Num n\<close> with \<open>n\<close> outside the safe integers stands for
  no value of the language.
\<close>

datatype jsval =
    Undefined
  | Null
  | Bool bool
  | Num int
  | NumStr string
  | Str string
  | Arr "jsval list" "(string \<times> jsval) list"
  | Obj "(string \<times> jsval) list"

text \<open>
  The only failures of the scripts are uncaught exceptions: a \<^verbatim>\<open>TypeError\<close> of the
  language (reading or writing a property of \<^verbatim>\<open>undefined\<close> or \<^verbatim>\<open>null\<close>, calling
  a method that the value does not have), an error of \<^verbatim>\<open>fs.readFileSync\<close> on a file
  that does not exist, and an error thrown by \<^verbatim>\<open>XMLParser.parse\<close>. The source
  defines no error class of its own.
\<close>

datatype error = TypeError | IOError | XMLError

definition bindE :: "error + 'a \<Rightarrow> ('a \<Rightarrow> error + 'b) \<Rightarrow> error + 'b" where
  "bindE m f = (case m of Inl e \<Rightarrow> Inl e | Inr x \<Rightarrow> f x)"

text \<open>\<^verbatim>\<open>x == null\<close>: the values on which a property access throws.\<close>

fun nullish :: "jsval \<Rightarrow> bool" where
  "nullish Undefined = True"
| "nullish Null = True"
| "nullish _ = False"

text \<open>\<^verbatim>\<open>Boolean(x)\<close>, the test of \<^verbatim>\<open>if (x)\<close>, \<^verbatim>\<open>!x\<close> and \<^verbatim>\<open>filter(Boolean)\<close>.\<close>

fun truthy :: "jsval \<Rightarrow> bool" where
  "truthy Undefined = False"
| "truthy Null = False"
| "truthy (Bool b) = b"
| "truthy (Num n) = (n \<noteq> 0)"
| "truthy (NumStr s) = (s \<noteq> ''NaN'')"
| "truthy (Str s) = (s \<noteq> [])"
| "truthy (Arr xs ps) = True"
| "truthy (Obj ps) = True"

text \<open>\<^verbatim>\<open>Array.isArray(x)\<close>.\<close>

fun isArray :: "jsval \<Rightarrow> bool" where
  "isArray (Arr xs ps) = True"
| "isArray _ = False"

text \<open>Own properties: lookup, and assignment that keeps the position of an existing key
  and puts a new key last.\<close>

fun lookup :: "(string \<times> jsval) list \<Rightarrow> string \<Rightarrow> jsval" where
  "lookup [] k = Undefined"
| "lookup ((k', v) # ps) k = (if k' = k then v else lookup ps k)"

fun assign :: "(string \<times> jsval) list \<Rightarrow> string \<Rightarrow> jsval \<Rightarrow> (string \<times> jsval) list" where
  "assign [] k v = [(k, v)]"
| "assign ((k', v') # ps) k v = (if k' = k then (k, v) # ps else (k', v') # assign ps k v)"

text \<open>
  \<^verbatim>\<open>x.k\<close> for the property names the scripts read (\<^verbatim>\<open>Package\<close>, \<^verbatim>\<open>types\<close>,
  \<^verbatim>\<open>name\<close>, \<^verbatim>\<open>members\<close>, \<^verbatim>\<open>FlowDefinition\<close>, \<^verbatim>\<open>result\<close>, \<^verbatim>\<open>records\<close>,
  \<^verbatim>\<open>Definition\<close>, \<^verbatim>\<open>DeveloperName\<close>, \<^verbatim>\<open>VersionNumber\<close>): none of them is a
  built-in property of a string, number, boolean or array, so on those it is
  \<^verbatim>\<open>undefined\<close> unless the array was given it. On \<^verbatim>\<open>undefined\<close> and \<^verbatim>\<open>null\<close>
  the access throws.
\<close>

fun get_prop :: "jsval \<Rightarrow> string \<Rightarrow> error + jsval" where
  "get_prop Undefined k = Inl TypeError"
| "get_prop Null k = Inl TypeError"
| "get_prop (Obj ps) k = Inr (lookup ps k)"
| "get_prop (Arr xs ps) k = Inr (lookup ps k)"
| "get_prop _ k = Inr Undefined"

text \<open>
  \<^verbatim>\<open>x.k = v\<close>, giving the value \<open>x\<close> refers to afterwards. The scripts are CommonJS
  modules without \<^verbatim>\<open>"use strict"\<close>: an assignment to a property of a string, number
  or boolean is silently ignored. On \<^verbatim>\<open>undefined\<close> and \<^verbatim>\<open>null\<close> it throws.
\<close>

fun set_prop :: "jsval \<Rightarrow> string \<Rightarrow> jsval \<Rightarrow> error + jsval" where
  "set_prop Undefined k v = Inl TypeError"
| "set_prop Null k v = Inl TypeError"
| "set_prop (Obj ps) k v = Inr (Obj (assign ps k v))"
| "set_prop (Arr xs ps) k v = Inr (Arr xs (assign ps k v))"
| "set_prop x k v = Inr x"

text \<open>
  \<^verbatim>\<open>[...new Set(members)]\<close>: a \<^verbatim>\<open>Set\<close> keeps its elements in insertion order and
  \<^verbatim>\<open>add\<close> ignores a value that is already there, so the spread is the list of first
  occurrences. On strings the comparison of \<^verbatim>\<open>Set\<close> is string equality.
\<close>

definition Set_add :: "'a list \<Rightarrow> 'a \<Rightarrow> 'a list" where
  "Set_add s x = (if x \<in> set s then s else s @ [x])"

definition new_Set :: "'a list \<Rightarrow> 'a list" where
  "new_Set xs = foldl Set_add [] xs"

text \<open>
  \<^verbatim>\<open>types.find((element) => element.name === type)\<close>, as the position of the first
  element whose \<^verbatim>\<open>name\<close> is the string \<open>type\<close> (\<open>None\<close> when \<^verbatim>\<open>find\<close> returns
  \<^verbatim>\<open>undefined\<close>). The position stands for the reference that \<^verbatim>\<open>find\<close> returns:
  the scripts go on to assign to a property of that element. The callback throws on an
  element that is \<^verbatim>\<open>undefined\<close> or \<^verbatim>\<open>null\<close>.
\<close>

fun find_name :: "jsval list \<Rightarrow> string \<Rightarrow> error + nat option" where
  "find_name [] type = Inr None"
| "find_name (element # rest) type =
     bindE (get_prop element ''name'') (\<lambda>n.
       if n = Str type then Inr (Some 0)
       else bindE (find_name rest type) (\<lambda>r. Inr (map_option Suc r)))"

text \<open>\<^verbatim>\<open>Array.isArray(t) ? t : [t]\<close>: the elements, and the named properties that stay
  with the array when it is the same array.\<close>

fun as_array :: "jsval \<Rightarrow> jsval list \<times> (string \<times> jsval) list" where
  "as_array (Arr xs ps) = (xs, ps)"
| "as_array t = ([t], [])"

section \<open>The Type-Merge Engine: \<^verbatim>\<open>updateManifest\<close>\<close>

text \<open>
  The part of \<^verbatim>\<open>updateManifest\<close> that both files share, from the value of
  \<^verbatim>\<open>manifest.Package.types\<close> on:
  \<^verbatim>\<open>
  const types = Array.isArray(manifest.Package.types) ? manifest.Package.types : [manifest.Package.types];
  const element = types.find((element) => element.name === type);
  if (element) {
    element.members = [...new Set(members)];
  } else {
    types.push({ members: members, name: type });
  }
  manifest.Package.types = types;
  \<close>
  \<open>members\<close> is a \<^verbatim>\<open>String[]\<close>, as the function's comment declares it. The element that
  \<^verbatim>\<open>find\<close> returns lives in \<open>types\<close>, so the assignment to its \<^verbatim>\<open>members\<close> is an
  update of \<open>types\<close> at its position; an element that \<^verbatim>\<open>find\<close> returns has a
  \<^verbatim>\<open>name\<close>, so it is an object (or an array with that property) and is truthy.
\<close>

definition merge_types :: "jsval \<Rightarrow> string list \<Rightarrow> string \<Rightarrow> error + jsval" where
  "merge_types t members type =
     (case as_array t of (types, ps) \<Rightarrow>
        bindE (find_name types type) (\<lambda>found.
          case found of
            Some i \<Rightarrow>
              bindE (set_prop (types ! i) ''members'' (Arr (map Str (new_Set members)) []))
                (\<lambda>element. Inr (Arr (types[i := element]) ps))
          | None \<Rightarrow>
              Inr (Arr (types @ [Obj [(''members'', Arr (map Str members) []),
                                       (''name'', Str type)]]) ps)))"

text \<open>
  \<^verbatim>\<open>updateManifest\<close> of \<^verbatim>\<open>src/flow-delete.js\<close> between \<^verbatim>\<open>parse\<close> and
  \<^verbatim>\<open>writeFile\<close>. It starts with
  \<^verbatim>\<open>manifest.Package.types = manifest.Package.types ?? [];\<close>
  \<open>Package\<close> is a reference into \<open>manifest\<close>: what is assigned to its properties is
  seen through \<open>manifest\<close>, which the last line of the definition writes out.
\<close>

definition updateManifest_parsed :: "jsval \<Rightarrow> string list \<Rightarrow> string \<Rightarrow> error + jsval" where
  "updateManifest_parsed manifest members type =
     bindE (get_prop manifest ''Package'') (\<lambda>Package.
     bindE (get_prop Package ''types'') (\<lambda>t0.
     bindE (set_prop Package ''types'' (if nullish t0 then Arr [] [] else t0)) (\<lambda>Package1.
     bindE (get_prop Package1 ''types'') (\<lambda>t1.
     bindE (merge_types t1 members type) (\<lambda>types.
     bindE (set_prop Package1 ''types'' types) (\<lambda>Package2.
       set_prop manifest ''Package'' Package2))))))"

text \<open>
  \<^verbatim>\<open>updateManifest\<close> of \<^verbatim>\<open>src/flowDelete.js\<close> between \<^verbatim>\<open>parse\<close> and
  \<^verbatim>\<open>writeFile\<close>: the same without the first assignment.
\<close>

definition updateManifest_parsed_flowDelete ::
    "jsval \<Rightarrow> string list \<Rightarrow> string \<Rightarrow> error + jsval" where
  "updateManifest_parsed_flowDelete manifest members type =
     bindE (get_prop manifest ''Package'') (\<lambda>Package.
     bindE (get_prop Package ''types'') (\<lambda>t1.
     bindE (merge_types t1 members type) (\<lambda>types.
     bindE (set_prop Package ''types'' types) (\<lambda>Package2.
       set_prop manifest ''Package'' Package2))))"

section \<open>Files and library functions\<close>

text \<open>
  The files the scripts read and write: a path has a content or does not exist.
  Directories are not modelled (\<^verbatim>\<open>fs.mkdirSync\<close> with \<^verbatim>\<open>recursive: true\<close> changes
  no file), and a write is taken to succeed.
\<close>

type_synonym files = "string \<rightharpoonup> string"

text \<open>
  The functions of \<^verbatim>\<open>fast-xml-parser\<close>, of the language and of Node that the scripts
  call and do not define are parameters of the model:
  \<^item> \<open>parse\<close> is \<^verbatim>\<open>parse(data)\<close>, that is \<^verbatim>\<open>new XMLParser(options).parse(data)\<close>,
    which may throw;
  \<^item> \<open>toXML\<close> is \<^verbatim>\<open>toXML(data)\<close>, that is \<^verbatim>\<open>new XMLBuilder(options).build(data)\<close>;
  \<^item> \<open>JSON_parse\<close> is \<^verbatim>\<open>JSON.parse\<close>, \<open>None\<close> when it throws;
  \<^item> \<open>spawnSync\<close> is \<^verbatim>\<open>spawnSync(command, args, options).output\<close> with
    \<^verbatim>\<open>encoding: "utf-8"\<close>: \<^verbatim>\<open>null\<close> (\<open>None\<close>) when the process could not be
    started, else the array of the process's output streams, each a string or
    \<^verbatim>\<open>null\<close>.
\<close>

record libs =
  parse :: "string \<Rightarrow> error + jsval"
  toXML :: "jsval \<Rightarrow> string"
  JSON_parse :: "string \<Rightarrow> jsval option"
  spawnSync :: "string \<Rightarrow> string list \<Rightarrow> string option list option"

definition readFile :: "files \<Rightarrow> string \<Rightarrow> error + string" where
  "readFile fs path = (case fs path of None \<Rightarrow> Inl IOError | Some data \<Rightarrow> Inr data)"

definition writeFile :: "files \<Rightarrow> string \<Rightarrow> string \<Rightarrow> files" where
  "writeFile fs path data = fs(path \<mapsto> data)"

text \<open>
  \<^verbatim>\<open>updateManifest(path, members, type)\<close> of \<^verbatim>\<open>src/flow-delete.js\<close>: read and parse
  the file, update the parsed document, write it back. The result is the outcome and
  the files afterwards; an exception leaves the function before \<^verbatim>\<open>writeFile\<close>.
\<close>

definition updateManifest ::
    "libs \<Rightarrow> files \<Rightarrow> string \<Rightarrow> string list \<Rightarrow> string \<Rightarrow> (error + unit) \<times> files" where
  "updateManifest L fs path members type =
     (case bindE (readFile fs path) (\<lambda>data.
           bindE (parse L data) (\<lambda>manifest.
             updateManifest_parsed manifest members type)) of
        Inl e \<Rightarrow> (Inl e, fs)
      | Inr manifest' \<Rightarrow> (Inr (), writeFile fs path (toXML L manifest')))"

text \<open>\<^verbatim>\<open>updateManifest(path, members, type)\<close> of \<^verbatim>\<open>src/flowDelete.js\<close>.\<close>

definition updateManifest_flowDelete ::
    "libs \<Rightarrow> files \<Rightarrow> string \<Rightarrow> string list \<Rightarrow> string \<Rightarrow> (error + unit) \<times> files" where
  "updateManifest_flowDelete L fs path members type =
     (case bindE (readFile fs path) (\<lambda>data.
           bindE (parse L data) (\<lambda>manifest.
             updateManifest_parsed_flowDelete manifest members type)) of
        Inl e \<Rightarrow> (Inl e, fs)
      | Inr manifest' \<Rightarrow> (Inr (), writeFile fs path (toXML L manifest')))"

section \<open>The Manifest Model: \<^verbatim>\<open>filterType\<close>\<close>

text \<open>
  \<^verbatim>\<open>filterType(manifest, name)\<close> of \<^verbatim>\<open>src/flow-delete.js\<close>:
  \<^verbatim>\<open>
  let result = { members: [], name: name };
  if (!manifest.Package?.types) { return result; }
  const types = Array.isArray(manifest.Package.types) ? manifest.Package.types : [manifest.Package.types];
  const type = types.find((type) => type.name === name);
  if (type) {
    result = type;
    result.members = Array.isArray(result.members) ? result.members : [result.members];
  }
  return result;
  \<close>
  The model gives the returned value. (The assignment to \<^verbatim>\<open>result.members\<close> also
  changes the entry inside \<open>manifest\<close>, which no caller reads again before parsing the
  file anew.)
\<close>

definition filterType :: "jsval \<Rightarrow> string \<Rightarrow> error + jsval" where
  "filterType manifest name =
     (let result = Obj [(''members'', Arr [] []), (''name'', Str name)] in
      bindE (get_prop manifest ''Package'') (\<lambda>Package.
      bindE (if nullish Package then Inr Undefined else get_prop Package ''types'') (\<lambda>t.
        if \<not> truthy t then Inr result
        else case as_array t of (types, ps) \<Rightarrow>
          bindE (find_name types name) (\<lambda>found.
            case found of
              Some i \<Rightarrow>
                bindE (get_prop (types ! i) ''members'') (\<lambda>m.
                  set_prop (types ! i) ''members'' (if isArray m then m else Arr [m] []))
            | None \<Rightarrow> Inr result))))"

text \<open>
  \<^verbatim>\<open>filterType(manifest, name)\<close> of \<^verbatim>\<open>src/flowDelete.js\<close>, whose last step is
  \<^verbatim>\<open>if (type) { result = type; }\<close>.
\<close>

definition filterType_flowDelete :: "jsval \<Rightarrow> string \<Rightarrow> error + jsval" where
  "filterType_flowDelete manifest name =
     (let result = Obj [(''members'', Arr [] []), (''name'', Str name)] in
      bindE (get_prop manifest ''Package'') (\<lambda>Package.
      bindE (if nullish Package then Inr Undefined else get_prop Package ''types'') (\<lambda>t.
        if \<not> truthy t then Inr result
        else case as_array t of (types, ps) \<Rightarrow>
          bindE (find_name types name) (\<lambda>found.
            case found of
              Some i \<Rightarrow> Inr (types ! i)
            | None \<Rightarrow> Inr result))))"

section \<open>The delete list of the driver: \<^verbatim>\<open>deletedFlows\<close>\<close>

text \<open>\<^verbatim>\<open>s.split(sep)\<close> for a separator of one character: the pieces between the
  separators, at least one.\<close>

fun js_split :: "char \<Rightarrow> string \<Rightarrow> string list" where
  "js_split sep [] = [[]]"
| "js_split sep (c # cs) =
     (if c = sep then [] # js_split sep cs
      else case js_split sep cs of
             [] \<Rightarrow> [[c]]
           | piece # pieces \<Rightarrow> (c # piece) # pieces)"

text \<open>\<^verbatim>\<open>xs.at(0)\<close>: the first element, \<^verbatim>\<open>undefined\<close> on the empty array.\<close>

fun at_0 :: "jsval list \<Rightarrow> jsval" where
  "at_0 [] = Undefined"
| "at_0 (x # xs) = x"

text \<open>\<^verbatim>\<open>xs.map(f)\<close> for an \<open>f\<close> that may throw: the first exception ends the loop.\<close>

fun mapE :: "('a \<Rightarrow> error + 'b) \<Rightarrow> 'a list \<Rightarrow> error + 'b list" where
  "mapE f [] = Inr []"
| "mapE f (x # xs) = bindE (f x) (\<lambda>y. bindE (mapE f xs) (\<lambda>ys. Inr (y # ys)))"

text \<open>
  The callback \<^verbatim>\<open>(flow) => { return flow.split('-').at(0); }\<close>. Only a string has
  \<^verbatim>\<open>split\<close>; on any other member the call throws a \<^verbatim>\<open>TypeError\<close>.
\<close>

fun strip_version :: "jsval \<Rightarrow> error + jsval" where
  "strip_version (Str flow) = Inr (at_0 (map Str (js_split (CHR ''-'') flow)))"
| "strip_version _ = Inl TypeError"

text \<open>
  \<^verbatim>\<open>src/flow-delete.js\<close>:
  \<^verbatim>\<open>const deletedFlows = filterType(destructiveXml, "Flow").members.map((flow) => {...})\<close>.
  \<^verbatim>\<open>map\<close> exists on an array only.
\<close>

definition deletedFlows :: "jsval \<Rightarrow> error + jsval list" where
  "deletedFlows destructiveXml =
     bindE (filterType destructiveXml ''Flow'') (\<lambda>entry.
     bindE (get_prop entry ''members'') (\<lambda>members.
       case members of
         Arr flows ps \<Rightarrow> mapE strip_version flows
       | _ \<Rightarrow> Inl TypeError))"

text \<open>
  \<^verbatim>\<open>src/flowDelete.js\<close>:
  \<^verbatim>\<open>const deletedFlows = filterType(destructiveXml, 'Flow').members;\<close>
\<close>

definition deletedFlows_flowDelete :: "jsval \<Rightarrow> error + jsval" where
  "deletedFlows_flowDelete destructiveXml =
     bindE (filterType_flowDelete destructiveXml ''Flow'') (\<lambda>entry.
       get_prop entry ''members'')"

section \<open>The Deactivation Orchestrator: \<^verbatim>\<open>deactivateFlows\<close>\<close>

text \<open>\<^verbatim>\<open>createFlowDefinition()\<close> of \<^verbatim>\<open>src/flow-delete.js\<close>.\<close>

definition createFlowDefinition :: jsval where
  "createFlowDefinition =
     Obj [(''?xml'', Obj [(''@_version'', Str ''1.0''), (''@_encoding'', Str ''UTF-8'')]),
          (''FlowDefinition'',
             Obj [(''activeVersionNumber'', Num 0),
                  (''@_xmlns'', Str ''http://soap.sforce.com/2006/04/metadata'')])]"

text \<open>The path of the descriptor of \<open>flow\<close>.\<close>

definition filePath :: "string \<Rightarrow> string" where
  "filePath flow =
     ''./force-app/main/default/flowDefinitions/'' @ flow @ ''.flowDefinition-meta.xml''"

text \<open>\<^verbatim>\<open>fd.FlowDefinition.activeVersionNumber = 0\<close> on the parsed descriptor \<open>fd\<close>.\<close>

definition set_inactive :: "jsval \<Rightarrow> error + jsval" where
  "set_inactive fd =
     bindE (get_prop fd ''FlowDefinition'') (\<lambda>FlowDefinition.
     bindE (set_prop FlowDefinition ''activeVersionNumber'' (Num 0)) (\<lambda>FlowDefinition'.
       set_prop fd ''FlowDefinition'' FlowDefinition'))"

text \<open>
  The body of the loop of \<^verbatim>\<open>deactivateFlows\<close> in \<^verbatim>\<open>src/flow-delete.js\<close>:
  \<^verbatim>\<open>
  const filePath = `./force-app/main/default/flowDefinitions/${flow}.flowDefinition-meta.xml`;
  let fd;
  if (fs.existsSync(filePath)) {
    fd = parse(readFile(filePath));
    fd.FlowDefinition.activeVersionNumber = 0;
  } else {
    fd = createFlowDefinition();
  }
  writeFile(filePath, toXML(fd));
  \<close>
\<close>

definition deactivateFlow :: "libs \<Rightarrow> files \<Rightarrow> string \<Rightarrow> (error + unit) \<times> files" where
  "deactivateFlow L fs flow =
     (case (if fs (filePath flow) \<noteq> None
            then bindE (readFile fs (filePath flow)) (\<lambda>data.
                 bindE (parse L data) (\<lambda>fd. set_inactive fd))
            else Inr createFlowDefinition) of
        Inl e \<Rightarrow> (Inl e, fs)
      | Inr fd \<Rightarrow> (Inr (), writeFile fs (filePath flow) (toXML L fd)))"


section \<open>The Version Resolver: \<^verbatim>\<open>fetchFlowVersions\<close>\<close>

text \<open>The decimal digits of a natural number, and \<^verbatim>\<open>String(n)\<close> for a safe integer
  \<open>n\<close>.\<close>

fun digits :: "nat \<Rightarrow> string" where
  "digits n =
     (if n < 10 then [''0123456789'' ! n]
      else digits (n div 10) @ [''0123456789'' ! (n mod 10)])"

definition string_of_int :: "int \<Rightarrow> string" where
  "string_of_int i = (if i < 0 then CHR ''-'' # digits (nat (- i)) else digits (nat i))"

text \<open>\<^verbatim>\<open>xs.join(sep)\<close> on strings.\<close>

fun join :: "string \<Rightarrow> string list \<Rightarrow> string" where
  "join sep [] = []"
| "join sep [x] = x"
| "join sep (x # y # ys) = x @ sep @ join sep (y # ys)"

text \<open>
  The string that a template literal \<^verbatim>\<open>`${x}`\<close> puts in for \<open>x\<close>: a safe integer is
  its decimal digits and any other number the text that stands for it; an array is its
  elements joined by commas, with nothing for \<^verbatim>\<open>undefined\<close> and \<^verbatim>\<open>null\<close>; an
  object of \<^verbatim>\<open>JSON.parse\<close> is \<^verbatim>\<open>[object Object]\<close>.
\<close>

fun js_toString :: "jsval \<Rightarrow> string" where
  "js_toString Undefined = ''undefined''"
| "js_toString Null = ''null''"
| "js_toString (Bool b) = (if b then ''true'' else ''false'')"
| "js_toString (Num n) = string_of_int n"
| "js_toString (NumStr s) = s"
| "js_toString (Str s) = s"
| "js_toString (Arr xs ps) =
     join '','' (map (\<lambda>x. if nullish x then [] else js_toString x) xs)"
| "js_toString (Obj ps) = ''[object Object]''"

text \<open>
  The callback of the last \<^verbatim>\<open>map\<close>:
  \<^verbatim>\<open>(version) => { return `${version.Definition.DeveloperName}-${version.VersionNumber}`; }\<close>
\<close>

definition format_version :: "jsval \<Rightarrow> error + string" where
  "format_version version =
     bindE (get_prop version ''Definition'') (\<lambda>Definition.
     bindE (get_prop Definition ''DeveloperName'') (\<lambda>DeveloperName.
     bindE (get_prop version ''VersionNumber'') (\<lambda>VersionNumber.
       Inr (js_toString DeveloperName @ ''-'' @ js_toString VersionNumber))))"

text \<open>The command line of the query for \<open>flows\<close>: the arguments of \<^verbatim>\<open>spawnSync\<close>.\<close>

definition query :: "string list \<Rightarrow> string" where
  "query flows =
     (let formatted =
            join '','' (map (\<lambda>flow. [CHR 0x27] @ flow @ [CHR 0x27])
                             (filter (\<lambda>flow. flow \<noteq> []) flows))
      in [CHR 0x22]
         @ ''SELECT Id, Definition.DeveloperName, VersionNumber, Status FROM Flow WHERE Definition.DeveloperName IN (''
         @ formatted @ '')'' @ [CHR 0x22])"

definition request :: "string list \<Rightarrow> string \<times> string list" where
  "request flows =
     (''sf'', [''data'', ''query'', ''--use-tooling-api'', ''--json'', ''--query'', query flows])"

text \<open>
  What \<^verbatim>\<open>fetchFlowVersions\<close> does with \<^verbatim>\<open>response.output\<close>:
  \<^verbatim>\<open>
  const versions = response.output.filter(Boolean).map((entry) => {
    try { return JSON.parse(entry.toString("utf-8")); }
    catch (error) { return entry.toString("utf-8"); }
  });
  const formattedFlowNames = versions.at(0).result.records.map((version) => {...});
  return formattedFlowNames;
  \<close>
  \<^verbatim>\<open>filter(Boolean)\<close> drops \<^verbatim>\<open>null\<close> and the empty string; \<^verbatim>\<open>map\<close> exists on an
  array only.
\<close>

definition read_response :: "libs \<Rightarrow> string option list option \<Rightarrow> error + string list" where
  "read_response L output =
     (case output of
        None \<Rightarrow> Inl TypeError
      | Some entries \<Rightarrow>
          (let versions =
                 map (\<lambda>entry. case JSON_parse L entry of Some v \<Rightarrow> v | None \<Rightarrow> Str entry)
                     (filter (\<lambda>entry. entry \<noteq> []) (List.map_filter (\<lambda>entry. entry) entries))
           in bindE (get_prop (at_0 versions) ''result'') (\<lambda>result.
              bindE (get_prop result ''records'') (\<lambda>records.
                case records of
                  Arr versions' ps \<Rightarrow> mapE format_version versions'
                | _ \<Rightarrow> Inl TypeError))))"

text \<open>
  \<^verbatim>\<open>fetchFlowVersions(flows)\<close>, the same in both files; \<open>flows\<close> is a
  \<^verbatim>\<open>String[]\<close>, as its comment declares. The result is the list of the commands that
  were run and the outcome.
\<close>

definition fetchFlowVersions ::
    "libs \<Rightarrow> string list \<Rightarrow> (string \<times> string list) list \<times> (error + string list)" where
  "fetchFlowVersions L flows =
     ([request flows],
      read_response L (spawnSync L (fst (request flows)) (snd (request flows))))"

section \<open>Notions used in the statements\<close>

text \<open>The values that are held by reference: objects and arrays.\<close>

fun is_ref :: "jsval \<Rightarrow> bool" where
  "is_ref (Obj ps) = True"
| "is_ref (Arr xs ps) = True"
| "is_ref _ = False"

text \<open>\<^verbatim>\<open>manifest.Package.types\<close>, as both versions of \<^verbatim>\<open>updateManifest\<close> read it.\<close>

definition types_of :: "jsval \<Rightarrow> error + jsval" where
  "types_of manifest =
     bindE (get_prop manifest ''Package'') (\<lambda>Package. get_prop Package ''types'')"


text \<open>
  Library functions for the concrete runs below: a file whose content is listed in
  \<open>docs\<close> parses to the document listed with it and any other content is rejected,
  every document is written as the same text, the command prints \<open>output\<close>, and the
  text \<^verbatim>\<open>json\<close> is the JSON of \<open>response\<close>.
\<close>

definition test_libs :: "(string \<times> jsval) list \<Rightarrow> string option list \<Rightarrow> jsval \<Rightarrow> libs" where
  "test_libs docs output response =
     \<lparr> parse = (\<lambda>data. case map_of docs data of None \<Rightarrow> Inl XMLError | Some doc \<Rightarrow> Inr doc),
       toXML = (\<lambda>doc. ''<rewritten/>''),
       JSON_parse = (\<lambda>s. if s = ''json'' then Some response else None),
       spawnSync = (\<lambda>command args. Some output) \<rparr>"

text \<open>Documents, files and answers for the concrete runs below.\<close>

definition sample_types :: jsval where
  "sample_types =
     Arr [Obj [(''members'', Str ''Base''), (''name'', Str ''ApexClass'')],
          Obj [(''members'', Arr [Str ''A'', Str ''B''] []), (''name'', Str ''Flow'')]] []"

definition sample_manifest :: jsval where
  "sample_manifest = Obj [(''Package'', Obj [(''types'', sample_types)])]"

definition sample_updated :: jsval where
  "sample_updated =
     Obj [(''Package'', Obj [(''types'',
       Arr [Obj [(''members'', Str ''Base''), (''name'', Str ''ApexClass'')],
            Obj [(''members'', Arr [Str ''C'', Str ''A''] []), (''name'', Str ''Flow'')]] [])])]"






section \<open>Basic facts\<close>

lemma bindE_Inr [simp]: "bindE (Inr x) f = f x"
  by (simp add: bindE_def)

lemma bindE_Inl [simp]: "bindE (Inl e) f = Inl e"
  by (simp add: bindE_def)

lemma bindE_eq_Inr: "bindE m f = Inr y \<longleftrightarrow> (\<exists>x. m = Inr x \<and> f x = Inr y)"
  by (cases m) simp_all

subsection \<open>The spread of a \<^verbatim>\<open>Set\<close>\<close>

lemma foldl_Set_add_distinct: "distinct acc \<Longrightarrow> distinct (foldl Set_add acc xs)"
  by (induction xs arbitrary: acc) (simp_all add: Set_add_def)

lemma foldl_Set_add_set: "set (foldl Set_add acc xs) = set acc \<union> set xs"
  by (induction xs arbitrary: acc) (auto simp: Set_add_def)

lemma foldl_Set_add_id: "distinct (acc @ xs) \<Longrightarrow> foldl Set_add acc xs = acc @ xs"
  by (induction xs arbitrary: acc) (simp_all add: Set_add_def)

lemma distinct_new_Set: "distinct (new_Set xs)"
  by (simp add: new_Set_def foldl_Set_add_distinct)

lemma set_new_Set: "set (new_Set xs) = set xs"
  by (simp add: new_Set_def foldl_Set_add_set)

lemma new_Set_distinct_id: "distinct xs \<Longrightarrow> new_Set xs = xs"
  using foldl_Set_add_id [of "[]" xs] by (simp add: new_Set_def)

subsection \<open>Reading and writing properties\<close>

lemma lookup_assign_same: "lookup (assign ps k v) k = v"
  by (induction ps) auto

lemma lookup_assign_other: "k' \<noteq> k \<Longrightarrow> lookup (assign ps k v) k' = lookup ps k'"
  by (induction ps) auto

lemma assign_assign: "assign (assign ps k v) k w = assign ps k w"
  by (induction ps) auto

lemma get_set_same: "is_ref x \<Longrightarrow> set_prop x k v = Inr x' \<Longrightarrow> get_prop x' k = Inr v"
  by (cases x) (auto simp: lookup_assign_same)

lemma get_set_other: "set_prop x k v = Inr x' \<Longrightarrow> k' \<noteq> k \<Longrightarrow> get_prop x' k' = get_prop x k'"
  by (cases x) (auto simp: lookup_assign_other)

lemma set_set: "set_prop x k v = Inr x' \<Longrightarrow> set_prop x' k w = set_prop x k w"
  by (cases x) (auto simp: assign_assign)

lemma set_prop_again: "set_prop x k v = Inr x' \<Longrightarrow> set_prop x' k v = Inr x'"
  by (simp add: set_set)

lemma is_ref_set: "set_prop x k v = Inr x' \<Longrightarrow> is_ref x' = is_ref x"
  by (cases x) auto

lemma get_Str_is_ref: "get_prop x k = Inr (Str s) \<Longrightarrow> is_ref x"
  by (cases x) auto

lemma set_prop_ref: "is_ref x \<Longrightarrow> \<exists>x'. set_prop x k v = Inr x'"
  by (cases x) auto

lemma get_prop_not_ref: "\<not> is_ref x \<Longrightarrow> get_prop x k = Inr v \<Longrightarrow> v = Undefined"
  by (cases x) auto

subsection \<open>\<^verbatim>\<open>find\<close> and the shared part of \<^verbatim>\<open>updateManifest\<close>\<close>

lemma find_name_Some:
  "find_name types type = Inr (Some i) \<Longrightarrow>
     i < length types \<and> get_prop (types ! i) ''name'' = Inr (Str type)"
proof (induction types arbitrary: i)
  case Nil
  then show ?case by simp
next
  case (Cons element rest)
  then show ?case
    by (auto simp: bindE_eq_Inr split: if_splits)
qed

lemma find_name_update:
  "find_name types type = Inr (Some i) \<Longrightarrow> set_prop (types ! i) ''members'' v = Inr el \<Longrightarrow>
     find_name (types[i := el]) type = Inr (Some i)"
proof (induction types arbitrary: i)
  case Nil
  then show ?case by simp
next
  case (Cons x rest)
  show ?case
  proof (cases i)
    case 0
    with Cons.prems have "get_prop el ''name'' = get_prop x ''name''"
      by (simp add: get_set_other)
    with Cons.prems 0 show ?thesis
      by (auto simp: bindE_eq_Inr split: if_splits)
  next
    case (Suc j)
    with Cons.prems obtain n where n: "get_prop x ''name'' = Inr n" "n \<noteq> Str type"
      and r: "find_name rest type = Inr (Some j)"
      by (auto simp: bindE_eq_Inr split: if_splits)
    from Cons.IH [OF r] Cons.prems(2) Suc have "find_name (rest[j := el]) type = Inr (Some j)"
      by simp
    with n Suc show ?thesis by simp
  qed
qed

lemma find_name_append:
  "find_name types type = Inr None \<Longrightarrow> get_prop el ''name'' = Inr (Str type) \<Longrightarrow>
     find_name (types @ [el]) type = Inr (Some (length types))"
  by (induction types) (auto simp: bindE_eq_Inr split: if_splits)

lemma merge_types_found:
  assumes "find_name (fst (as_array t)) type = Inr (Some i)"
  shows "\<exists>el. set_prop (fst (as_array t) ! i) ''members'' (Arr (map Str (new_Set members)) [])
                = Inr el
           \<and> merge_types t members type
                = Inr (Arr ((fst (as_array t))[i := el]) (snd (as_array t)))"
proof -
  from find_name_Some [OF assms] have "is_ref (fst (as_array t) ! i)"
    by (auto dest: get_Str_is_ref)
  then obtain el where
    "set_prop (fst (as_array t) ! i) ''members'' (Arr (map Str (new_Set members)) []) = Inr el"
    using set_prop_ref by blast
  with assms show ?thesis
    by (auto simp: merge_types_def split: prod.splits)
qed

lemma merge_types_not_found:
  assumes "find_name (fst (as_array t)) type = Inr None"
  shows "merge_types t members type =
           Inr (Arr (fst (as_array t) @ [Obj [(''members'', Arr (map Str members) []),
                                               (''name'', Str type)]]) (snd (as_array t)))"
  using assms by (auto simp: merge_types_def split: prod.splits)

lemma merge_types_Undefined: "merge_types Undefined members type = Inl TypeError"
  by (simp add: merge_types_def)

lemma merge_types_isArray: "merge_types t members type = Inr t' \<Longrightarrow> \<not> nullish t'"
  by (auto simp: merge_types_def bindE_eq_Inr split: prod.splits option.splits)

lemma merge_types_idem:
  assumes m: "merge_types t members type = Inr t'"
    and h: "distinct members \<or> (\<exists>i. find_name (fst (as_array t)) type = Inr (Some i))"
  shows "merge_types t' members type = Inr t'"
proof -
  let ?xs = "fst (as_array t)"
  obtain found where f: "find_name ?xs type = Inr found"
    using m by (auto simp: merge_types_def bindE_eq_Inr split: prod.splits)
  show ?thesis
  proof (cases found)
    case (Some i)
    from f Some merge_types_found [of t type i members] m obtain el where
      el: "set_prop (?xs ! i) ''members'' (Arr (map Str (new_Set members)) []) = Inr el"
      and t': "t' = Arr (?xs[i := el]) (snd (as_array t))"
      by auto
    from f Some have i: "i < length ?xs"
      by (simp add: find_name_Some)
    have f': "find_name (?xs[i := el]) type = Inr (Some i)"
      using f Some el by (simp add: find_name_update)
    have "set_prop el ''members'' (Arr (map Str (new_Set members)) []) = Inr el"
      using el by (rule set_prop_again)
    with f' i show ?thesis
      by (simp add: t' merge_types_def)
  next
    case None
    with h f have d: "distinct members"
      by auto
    let ?new = "Obj [(''members'', Arr (map Str members) []), (''name'', Str type)]"
    from f None m have t': "t' = Arr (?xs @ [?new]) (snd (as_array t))"
      by (simp add: merge_types_not_found)
    have "find_name (?xs @ [?new]) type = Inr (Some (length ?xs))"
      using f None by (intro find_name_append) simp_all
    then show ?thesis
      by (simp add: t' merge_types_def new_Set_distinct_id d)
  qed
qed

lemma find_name_nullish: "nullish t \<Longrightarrow> find_name (fst (as_array t)) type = Inl TypeError"
  by (cases t) simp_all

subsection \<open>Both versions of \<^verbatim>\<open>updateManifest\<close>\<close>

lemma updateManifest_parsed_Inr:
  assumes "updateManifest_parsed manifest members type = Inr m'"
  obtains Package t0 Package1 types Package2 where
    "get_prop manifest ''Package'' = Inr Package" "get_prop Package ''types'' = Inr t0"
    "set_prop Package ''types'' (if nullish t0 then Arr [] [] else t0) = Inr Package1"
    "merge_types (if nullish t0 then Arr [] [] else t0) members type = Inr types"
    "set_prop Package1 ''types'' types = Inr Package2"
    "set_prop manifest ''Package'' Package2 = Inr m'" "is_ref manifest" "is_ref Package"
proof -
  from assms obtain Package t0 Package1 t1 types Package2 where
    1: "get_prop manifest ''Package'' = Inr Package" and 2: "get_prop Package ''types'' = Inr t0"
    and 3: "set_prop Package ''types'' (if nullish t0 then Arr [] [] else t0) = Inr Package1"
    and 4: "get_prop Package1 ''types'' = Inr t1"
    and 5: "merge_types t1 members type = Inr types"
    and 6: "set_prop Package1 ''types'' types = Inr Package2"
    and 7: "set_prop manifest ''Package'' Package2 = Inr m'"
    unfolding updateManifest_parsed_def bindE_eq_Inr by blast
  have P: "is_ref Package"
  proof (rule ccontr)
    assume "\<not> is_ref Package"
    with 3 have "\<not> is_ref Package1" by (simp add: is_ref_set)
    with 4 have "t1 = Undefined" using get_prop_not_ref by blast
    with 5 show False by (simp add: merge_types_Undefined)
  qed
  have M: "is_ref manifest"
  proof (rule ccontr)
    assume "\<not> is_ref manifest"
    with 1 have "Package = Undefined" using get_prop_not_ref by blast
    with P show False by simp
  qed
  from P 3 have "get_prop Package1 ''types'' = Inr (if nullish t0 then Arr [] [] else t0)"
    by (rule get_set_same)
  with 4 have "t1 = (if nullish t0 then Arr [] [] else t0)" by simp
  with that 1 2 3 5 6 7 P M show thesis by blast
qed

lemma updateManifest_parsed_flowDelete_Inr:
  assumes "updateManifest_parsed_flowDelete manifest members type = Inr m'"
  obtains Package t types Package2 where
    "get_prop manifest ''Package'' = Inr Package" "get_prop Package ''types'' = Inr t"
    "merge_types t members type = Inr types" "set_prop Package ''types'' types = Inr Package2"
    "set_prop manifest ''Package'' Package2 = Inr m'" "is_ref manifest" "is_ref Package"
proof -
  from assms obtain Package t types Package2 where
    1: "get_prop manifest ''Package'' = Inr Package" and 2: "get_prop Package ''types'' = Inr t"
    and 3: "merge_types t members type = Inr types"
    and 4: "set_prop Package ''types'' types = Inr Package2"
    and 5: "set_prop manifest ''Package'' Package2 = Inr m'"
    unfolding updateManifest_parsed_flowDelete_def bindE_eq_Inr by blast
  have P: "is_ref Package"
  proof (rule ccontr)
    assume "\<not> is_ref Package"
    with 2 have "t = Undefined" using get_prop_not_ref by blast
    with 3 show False by (simp add: merge_types_Undefined)
  qed
  have "is_ref manifest"
  proof (rule ccontr)
    assume "\<not> is_ref manifest"
    with 1 have "Package = Undefined" using get_prop_not_ref by blast
    with P show False by simp
  qed
  with that 1 2 3 4 5 P show thesis by blast
qed

text \<open>The two versions agree on every document that has a \<^verbatim>\<open>types\<close> field.\<close>

lemma updateManifest_parsed_eq:
  assumes "types_of manifest = Inr t" "\<not> nullish t"
  shows "updateManifest_parsed manifest members type =
         updateManifest_parsed_flowDelete manifest members type"
proof -
  from assms(1) obtain Package where
    p: "get_prop manifest ''Package'' = Inr Package" "get_prop Package ''types'' = Inr t"
    by (auto simp: types_of_def bindE_eq_Inr)
  have P: "is_ref Package"
    using p assms(2) by (cases Package) auto
  then obtain Package1 where s: "set_prop Package ''types'' t = Inr Package1"
    using set_prop_ref by blast
  with P have g: "get_prop Package1 ''types'' = Inr t"
    by (rule get_set_same)
  have "\<And>v. set_prop Package1 ''types'' v = set_prop Package ''types'' v"
    using s by (rule set_set)
  with assms p s g show ?thesis
    by (simp add: updateManifest_parsed_def updateManifest_parsed_flowDelete_def)
qed

lemma updateManifest_parsed_types_of:
  assumes "types_of manifest = Inr t" "find_name (fst (as_array t)) type = Inr (Some i)"
  shows "\<exists>el. set_prop (fst (as_array t) ! i) ''members'' (Arr (map Str (new_Set members)) [])
                 = Inr el
            \<and> bindE (updateManifest_parsed_flowDelete manifest members type) types_of
                 = Inr (Arr ((fst (as_array t))[i := el]) (snd (as_array t)))"
proof -
  from assms(1) obtain Package where
    p: "get_prop manifest ''Package'' = Inr Package" "get_prop Package ''types'' = Inr t"
    by (auto simp: types_of_def bindE_eq_Inr)
  from assms(2) have nn: "\<not> nullish t"
    using find_name_nullish [of t type] by auto
  have P: "is_ref Package"
    using p nn by (cases Package) auto
  have M: "is_ref manifest"
    using p P by (cases manifest) auto
  from merge_types_found [OF assms(2), of members] obtain el where
    el: "set_prop (fst (as_array t) ! i) ''members'' (Arr (map Str (new_Set members)) []) = Inr el"
    and mt: "merge_types t members type = Inr (Arr ((fst (as_array t))[i := el]) (snd (as_array t)))"
    by blast
  let ?types = "Arr ((fst (as_array t))[i := el]) (snd (as_array t))"
  from P obtain Package2 where s1: "set_prop Package ''types'' ?types = Inr Package2"
    using set_prop_ref by blast
  from M obtain m' where s2: "set_prop manifest ''Package'' Package2 = Inr m'"
    using set_prop_ref by blast
  have "updateManifest_parsed_flowDelete manifest members type = Inr m'"
    using p mt s1 s2 by (simp add: updateManifest_parsed_flowDelete_def)
  moreover have "types_of m' = Inr ?types"
    using get_set_same [OF M s2] get_set_same [OF P s1] by (simp add: types_of_def)
  ultimately show ?thesis using el by auto
qed

subsection \<open>\<^verbatim>\<open>filterType\<close> of \<^verbatim>\<open>src/flow-delete.js\<close>\<close>

text \<open>The entry it returns has an array as \<^verbatim>\<open>members\<close>, and it is the empty entry when
  the document has no \<^verbatim>\<open>Package\<close>, no \<^verbatim>\<open>types\<close> or no entry of that name.\<close>

lemma filterType_members_isArray:
  assumes "filterType manifest name = Inr entry"
  shows "\<exists>xs ps. get_prop entry ''members'' = Inr (Arr xs ps)"
proof -
  let ?result = "Obj [(''members'', Arr [] []), (''name'', Str name)]"
  from assms obtain t where
    r: "(if \<not> truthy t then Inr ?result
        else bindE (find_name (fst (as_array t)) name) (\<lambda>found.
            case found of
              Some i \<Rightarrow>
                bindE (get_prop (fst (as_array t) ! i) ''members'') (\<lambda>m.
                  set_prop (fst (as_array t) ! i) ''members''
                    (if isArray m then m else Arr [m] []))
            | None \<Rightarrow> Inr ?result)) = Inr entry"
    unfolding filterType_def Let_def bindE_eq_Inr case_prod_beta by blast
  show ?thesis
  proof (cases "truthy t")
    case False
    with r show ?thesis by auto
  next
    case True
    with r have "bindE (find_name (fst (as_array t)) name) (\<lambda>found.
            case found of
              Some i \<Rightarrow>
                bindE (get_prop (fst (as_array t) ! i) ''members'') (\<lambda>m.
                  set_prop (fst (as_array t) ! i) ''members''
                    (if isArray m then m else Arr [m] []))
            | None \<Rightarrow> Inr ?result) = Inr entry"
      by simp
    from this [unfolded bindE_eq_Inr]
    obtain found where f: "find_name (fst (as_array t)) name = Inr found"
      and r': "(case found of
              Some i \<Rightarrow>
                bindE (get_prop (fst (as_array t) ! i) ''members'') (\<lambda>m.
                  set_prop (fst (as_array t) ! i) ''members''
                    (if isArray m then m else Arr [m] []))
            | None \<Rightarrow> Inr ?result) = Inr entry"
      by blast
    show ?thesis
    proof (cases found)
      case None
      with r' show ?thesis by auto
    next
      case (Some i)
      with f have ref: "is_ref (fst (as_array t) ! i)"
        by (auto dest: find_name_Some get_Str_is_ref)
      from r' Some obtain m where
        s: "set_prop (fst (as_array t) ! i) ''members'' (if isArray m then m else Arr [m] [])
              = Inr entry"
        by (auto simp: bindE_eq_Inr)
      from get_set_same [OF ref s] show ?thesis
        by (cases m) auto
    qed
  qed
qed

lemma filterType_no_types:
  "types_of manifest = Inr t \<Longrightarrow> \<not> truthy t \<Longrightarrow>
     filterType manifest name = Inr (Obj [(''members'', Arr [] []), (''name'', Str name)])"
  by (auto simp: types_of_def filterType_def bindE_eq_Inr)

lemma filterType_no_Package:
  "get_prop manifest ''Package'' = Inr Package \<Longrightarrow> nullish Package \<Longrightarrow>
     filterType manifest name = Inr (Obj [(''members'', Arr [] []), (''name'', Str name)])"
  by (auto simp: filterType_def)

lemma filterType_no_entry:
  assumes "types_of manifest = Inr t" and "find_name (fst (as_array t)) name = Inr None"
  shows "filterType manifest name = Inr (Obj [(''members'', Arr [] []), (''name'', Str name)])"
proof -
  from assms(1) obtain Package where
    p: "get_prop manifest ''Package'' = Inr Package" "get_prop Package ''types'' = Inr t"
    by (auto simp: types_of_def bindE_eq_Inr)
  then have "\<not> nullish Package"
    by (cases Package) auto
  with p assms(2) show ?thesis
    by (simp add: filterType_def case_prod_beta Let_def)
qed

subsection \<open>The delete list of \<^verbatim>\<open>src/flow-delete.js\<close>\<close>

text \<open>A name keeps what stands before its first \<^verbatim>\<open>-\<close>.\<close>

lemma js_split_takeWhile: "\<exists>pieces. js_split sep s = takeWhile (\<lambda>c. c \<noteq> sep) s # pieces"
  by (induction s) (auto split: list.splits)

lemma strip_version_Str:
  "strip_version (Str flow) = Inr (Str (takeWhile (\<lambda>c. c \<noteq> CHR ''-'') flow))"
  using js_split_takeWhile [of "CHR ''-''" flow] by auto

lemma deletedFlows_MyFlow_3:
  "deletedFlows (Obj [(''Package'', Obj [(''types'',
       Obj [(''members'', Str ''MyFlow-3''), (''name'', Str ''Flow'')])])])
     = Inr [Str ''MyFlow'']"
  by (simp add: deletedFlows_def filterType_def)

text \<open>So a name without \<^verbatim>\<open>-\<close> loses exactly the suffix, and is kept when it has none.\<close>

lemma strip_version_suffix:
  "CHR ''-'' \<notin> set name \<Longrightarrow>
     strip_version (Str (name @ CHR ''-'' # version)) = Inr (Str name)"
  by (auto simp add: strip_version_Str takeWhile_tail simp del: strip_version.simps)

lemma strip_version_bare:
  "CHR ''-'' \<notin> set name \<Longrightarrow> strip_version (Str name) = Inr (Str name)"
  by (auto simp add: strip_version_Str simp del: strip_version.simps)

subsection \<open>Version records and descriptors\<close>






text \<open>A descriptor whose \<^verbatim>\<open>FlowDefinition\<close> is a string, a number or a boolean is written
  back as it was parsed: the assignment to its property is ignored.\<close>

lemma assign_lookup: "\<not> nullish (lookup ps k) \<Longrightarrow> assign ps k (lookup ps k) = ps"
  by (induction ps) auto

lemma deactivateFlow_primitive:
  assumes "fs (filePath flow) = Some data" "parse L data = Inr fd"
    "get_prop fd ''FlowDefinition'' = Inr d" "\<not> is_ref d" "\<not> nullish d"
  shows "deactivateFlow L fs flow = (Inr (), fs(filePath flow \<mapsto> toXML L fd))"
proof -
  have d: "set_prop d ''activeVersionNumber'' (Num 0) = Inr d"
    using assms(4,5) by (cases d) auto
  have "set_prop fd ''FlowDefinition'' d = Inr fd"
    using assms(3,5) by (cases fd) (auto simp: assign_lookup)
  with d assms(1,2,3) show ?thesis
    by (simp add: deactivateFlow_def set_inactive_def readFile_def writeFile_def)
qed

section \<open>The claims\<close>

subsection \<open>C1: what \<^verbatim>\<open>updateManifest\<close> does to an entry that exists\<close>

text \<open>
  C1, as stated, fails: the entry \<^verbatim>\<open>Flow\<close> has the member \<^verbatim>\<open>A\<close> and is updated with
  \<^verbatim>\<open>["B"]\<close>; afterwards its members are \<^verbatim>\<open>["B"]\<close> in both files, which is not the
  union of \<^verbatim>\<open>A\<close> and \<^verbatim>\<open>B\<close>.
\<close>

theorem updateManifest_drops_existing_members:
  "updateManifest_parsed
     (Obj [(''Package'', Obj [(''types'',
        Obj [(''members'', Str ''A''), (''name'', Str ''Flow'')])])]) [''B''] ''Flow''
   = Inr (Obj [(''Package'', Obj [(''types'',
        Arr [Obj [(''members'', Arr [Str ''B''] []), (''name'', Str ''Flow'')]] [])])])
   \<and> updateManifest_parsed_flowDelete
     (Obj [(''Package'', Obj [(''types'',
        Obj [(''members'', Str ''A''), (''name'', Str ''Flow'')])])]) [''B''] ''Flow''
   = Inr (Obj [(''Package'', Obj [(''types'',
        Arr [Obj [(''members'', Arr [Str ''B''] []), (''name'', Str ''Flow'')]] [])])])
   \<and> set [Str ''B''] \<noteq> set [Str ''A''] \<union> set [Str ''B'']"
  by (simp add: updateManifest_parsed_def updateManifest_parsed_flowDelete_def
      merge_types_def new_Set_def Set_add_def)

text \<open>
  C1, amended: when the document has an entry whose \<^verbatim>\<open>name\<close> is \<open>type\<close>, the first one
  at position \<open>i\<close> of the types, both versions of \<^verbatim>\<open>updateManifest\<close> succeed with the same
  document, whose types are the old ones with the entry at \<open>i\<close> replaced by \<open>el\<close>: its
  \<^verbatim>\<open>members\<close> are the new members without duplicates, and nothing of the old members;
  every other property of the entry is as before.
\<close>

theorem updateManifest_replaces_members:
  assumes "types_of manifest = Inr t"
    and "find_name (fst (as_array t)) type = Inr (Some i)"
  shows "\<exists>el. updateManifest_parsed manifest members type
                 = updateManifest_parsed_flowDelete manifest members type
            \<and> bindE (updateManifest_parsed manifest members type) types_of
                 = Inr (Arr ((fst (as_array t))[i := el]) (snd (as_array t)))
            \<and> get_prop el ''members'' = Inr (Arr (map Str (new_Set members)) [])
            \<and> (\<forall>k. k \<noteq> ''members'' \<longrightarrow> get_prop el k = get_prop (fst (as_array t) ! i) k)
            \<and> distinct (new_Set members) \<and> set (new_Set members) = set members"
proof -
  from assms(2) have nn: "\<not> nullish t"
    using find_name_nullish [of t type] by auto
  have eq: "updateManifest_parsed manifest members type
              = updateManifest_parsed_flowDelete manifest members type"
    using assms(1) nn by (rule updateManifest_parsed_eq)
  from updateManifest_parsed_types_of [OF assms, of members] obtain el where
    el: "set_prop (fst (as_array t) ! i) ''members'' (Arr (map Str (new_Set members)) []) = Inr el"
    and r: "bindE (updateManifest_parsed_flowDelete manifest members type) types_of
              = Inr (Arr ((fst (as_array t))[i := el]) (snd (as_array t)))"
    by blast
  have ref: "is_ref (fst (as_array t) ! i)"
    using find_name_Some [OF assms(2)] by (auto dest: get_Str_is_ref)
  have "get_prop el ''members'' = Inr (Arr (map Str (new_Set members)) [])"
    using ref el by (rule get_set_same)
  moreover have "\<forall>k. k \<noteq> ''members'' \<longrightarrow> get_prop el k = get_prop (fst (as_array t) ! i) k"
    using el by (simp add: get_set_other)
  ultimately show ?thesis
    using eq r by (auto simp: distinct_new_Set set_new_Set)
qed

text \<open>
  C1, amended, at a document with the entries \<^verbatim>\<open>ApexClass\<close> and \<^verbatim>\<open>Flow\<close>, updated with
  \<^verbatim>\<open>["C", "A", "C"]\<close> for \<^verbatim>\<open>Flow\<close>.
\<close>

theorem updateManifest_replaces_members_witness:
  "types_of sample_manifest = Inr sample_types
   \<and> find_name (fst (as_array sample_types)) ''Flow'' = Inr (Some 1)
   \<and> (\<exists>el. bindE (updateManifest_parsed sample_manifest [''C'', ''A'', ''C''] ''Flow'') types_of
              = Inr (Arr [Obj [(''members'', Str ''Base''), (''name'', Str ''ApexClass'')], el] [])
          \<and> get_prop el ''members'' = Inr (Arr [Str ''C'', Str ''A''] [])
          \<and> get_prop el ''name'' = Inr (Str ''Flow''))"
proof -
  have h1: "types_of sample_manifest = Inr sample_types"
    by (simp add: types_of_def sample_manifest_def)
  have h2: "find_name (fst (as_array sample_types)) ''Flow'' = Inr (Some 1)"
    by (simp add: sample_types_def)
  have s: "fst (as_array sample_types) =
             [Obj [(''members'', Str ''Base''), (''name'', Str ''ApexClass'')],
              Obj [(''members'', Arr [Str ''A'', Str ''B''] []), (''name'', Str ''Flow'')]]"
    "snd (as_array sample_types) = []"
    by (simp_all add: sample_types_def)
  have n: "new_Set [''C'', ''A'', ''C''] = [''C'', ''A'']"
    by (simp add: new_Set_def Set_add_def)
  from updateManifest_replaces_members [OF h1 h2, of "[''C'', ''A'', ''C'']"]
  show ?thesis
    unfolding s n using h1 h2 by auto
qed

subsection \<open>C2: stripping the version suffix\<close>

text \<open>
  C2 at its failing inputs. In \<^verbatim>\<open>src/flow-delete.js\<close> the member \<^verbatim>\<open>My-Flow-3\<close> becomes
  \<^verbatim>\<open>My\<close>, where the split on the last separator keeps \<^verbatim>\<open>My-Flow\<close>. In
  \<^verbatim>\<open>src/flowDelete.js\<close> the member \<^verbatim>\<open>MyFlow-3\<close> stays \<^verbatim>\<open>MyFlow-3\<close>.
\<close>

theorem deletedFlows_at_hyphenated_name:
  "deletedFlows (Obj [(''Package'', Obj [(''types'',
       Obj [(''members'', Str ''My-Flow-3''), (''name'', Str ''Flow'')])])])
     = Inr [Str ''My'']
   \<and> deletedFlows_flowDelete (Obj [(''Package'', Obj [(''types'',
       Obj [(''members'', Arr [Str ''MyFlow-3''] []), (''name'', Str ''Flow'')])])])
     = Inr (Arr [Str ''MyFlow-3''] [])"
  by (simp add: deletedFlows_def deletedFlows_flowDelete_def filterType_def
      filterType_flowDelete_def)

subsection \<open>C3: one identifier for every version record\<close>




subsection \<open>C4: the descriptor after deactivation\<close>




subsection \<open>C5: duplicates after \<^verbatim>\<open>updateManifest\<close>\<close>

text \<open>
  C5 at its failing input: the document has no entry \<^verbatim>\<open>FlowDefinition\<close> and the new
  members are \<^verbatim>\<open>["FlowA", "FlowA"]\<close>. The appended entry has both, in both files.
\<close>

theorem updateManifest_append_keeps_duplicates:
  "updateManifest_parsed
     (Obj [(''Package'', Obj [(''types'',
        Obj [(''members'', Str ''Base''), (''name'', Str ''ApexClass'')])])])
     [''FlowA'', ''FlowA''] ''FlowDefinition''
   = Inr (Obj [(''Package'', Obj [(''types'',
        Arr [Obj [(''members'', Str ''Base''), (''name'', Str ''ApexClass'')],
             Obj [(''members'', Arr [Str ''FlowA'', Str ''FlowA''] []),
                  (''name'', Str ''FlowDefinition'')]] [])])])
   \<and> updateManifest_parsed_flowDelete
     (Obj [(''Package'', Obj [(''types'',
        Obj [(''members'', Str ''Base''), (''name'', Str ''ApexClass'')])])])
     [''FlowA'', ''FlowA''] ''FlowDefinition''
   = Inr (Obj [(''Package'', Obj [(''types'',
        Arr [Obj [(''members'', Str ''Base''), (''name'', Str ''ApexClass'')],
             Obj [(''members'', Arr [Str ''FlowA'', Str ''FlowA''] []),
                  (''name'', Str ''FlowDefinition'')]] [])])])"
  by (simp add: updateManifest_parsed_def updateManifest_parsed_flowDelete_def merge_types_def)

subsection \<open>C6: the empty list of names\<close>

text \<open>
  C6, as stated, fails: on the empty list \<^verbatim>\<open>fetchFlowVersions\<close> runs a command, and
  when the reply to it has no \<^verbatim>\<open>result\<close>, as an error reply has, the call ends with a
  \<^verbatim>\<open>TypeError\<close> and returns no list.
\<close>

theorem fetchFlowVersions_empty_issues_request:
  "fst (fetchFlowVersions
         (test_libs [] [None, Some ''json'', Some []]
            (Obj [(''status'', Num 1), (''name'', Str ''MALFORMED_QUERY'')])) [])
     \<noteq> []
   \<and> snd (fetchFlowVersions
         (test_libs [] [None, Some ''json'', Some []]
            (Obj [(''status'', Num 1), (''name'', Str ''MALFORMED_QUERY'')])) [])
     = Inl TypeError"
  by (simp add: fetchFlowVersions_def read_response_def test_libs_def List.map_filter_def)

text \<open>
  C6, amended: on the empty list \<^verbatim>\<open>fetchFlowVersions\<close> runs exactly one command, the
  query with the empty list \<^verbatim>\<open>IN ()\<close>. When the first non-empty output stream of that
  command is the JSON of \<open>response\<close>, the result is the empty list if
  \<^verbatim>\<open>response.result.records\<close> is an empty array, and a \<^verbatim>\<open>TypeError\<close> if \<open>response\<close> has no
  \<^verbatim>\<open>result\<close>.
\<close>

theorem fetchFlowVersions_empty:
  assumes "spawnSync L ''sf''
             [''data'', ''query'', ''--use-tooling-api'', ''--json'', ''--query'',
              [CHR 0x22]
              @ ''SELECT Id, Definition.DeveloperName, VersionNumber, Status FROM Flow WHERE Definition.DeveloperName IN ()''
              @ [CHR 0x22]] = Some output"
    and "filter (\<lambda>entry. entry \<noteq> []) (List.map_filter (\<lambda>entry. entry) output) = stdout # rest"
    and "JSON_parse L stdout = Some response"
  shows "fst (fetchFlowVersions L []) =
           [(''sf'', [''data'', ''query'', ''--use-tooling-api'', ''--json'', ''--query'',
               [CHR 0x22]
               @ ''SELECT Id, Definition.DeveloperName, VersionNumber, Status FROM Flow WHERE Definition.DeveloperName IN ()''
               @ [CHR 0x22]])]
       \<and> (bindE (get_prop response ''result'') (\<lambda>result. get_prop result ''records'')
              = Inr (Arr [] ps)
            \<longrightarrow> snd (fetchFlowVersions L []) = Inr [])
       \<and> (get_prop response ''result'' = Inr Undefined
            \<longrightarrow> snd (fetchFlowVersions L []) = Inl TypeError)"
proof (intro conjI impI)
  show "fst (fetchFlowVersions L []) =
           [(''sf'', [''data'', ''query'', ''--use-tooling-api'', ''--json'', ''--query'',
               [CHR 0x22]
               @ ''SELECT Id, Definition.DeveloperName, VersionNumber, Status FROM Flow WHERE Definition.DeveloperName IN ()''
               @ [CHR 0x22]])]"
    by (simp add: fetchFlowVersions_def request_def query_def)
next
  assume "bindE (get_prop response ''result'') (\<lambda>result. get_prop result ''records'')
            = Inr (Arr [] ps)"
  then obtain result where
    "get_prop response ''result'' = Inr result" "get_prop result ''records'' = Inr (Arr [] ps)"
    by (auto simp: bindE_eq_Inr)
  with assms show "snd (fetchFlowVersions L []) = Inr []"
    by (simp add: fetchFlowVersions_def read_response_def request_def query_def)
next
  assume "get_prop response ''result'' = Inr Undefined"
  with assms show "snd (fetchFlowVersions L []) = Inl TypeError"
    by (simp add: fetchFlowVersions_def read_response_def request_def query_def)
qed

text \<open>
  C6, amended, at a reply without records and at an error reply.
\<close>

theorem fetchFlowVersions_empty_witness:
  "spawnSync (test_libs [] [None, Some ''json'', Some []]
               (Obj [(''status'', Num 0), (''result'', Obj [(''records'', Arr [] [])])])) ''sf''
       [''data'', ''query'', ''--use-tooling-api'', ''--json'', ''--query'',
        [CHR 0x22]
        @ ''SELECT Id, Definition.DeveloperName, VersionNumber, Status FROM Flow WHERE Definition.DeveloperName IN ()''
        @ [CHR 0x22]]
     = Some [None, Some ''json'', Some []]
   \<and> filter (\<lambda>entry. entry \<noteq> []) (List.map_filter (\<lambda>entry. entry) [None, Some ''json'', Some []])
     = [''json'']
   \<and> JSON_parse (test_libs [] [None, Some ''json'', Some []]
               (Obj [(''status'', Num 0), (''result'', Obj [(''records'', Arr [] [])])])) ''json''
     = Some (Obj [(''status'', Num 0), (''result'', Obj [(''records'', Arr [] [])])])
   \<and> bindE (get_prop (Obj [(''status'', Num 0), (''result'', Obj [(''records'', Arr [] [])])])
              ''result'') (\<lambda>result. get_prop result ''records'') = Inr (Arr [] [])
   \<and> snd (fetchFlowVersions (test_libs [] [None, Some ''json'', Some []]
               (Obj [(''status'', Num 0), (''result'', Obj [(''records'', Arr [] [])])])) [])
     = Inr []
   \<and> JSON_parse (test_libs [] [None, Some ''json'', Some []]
               (Obj [(''status'', Num 1), (''name'', Str ''MALFORMED_QUERY'')])) ''json''
     = Some (Obj [(''status'', Num 1), (''name'', Str ''MALFORMED_QUERY'')])
   \<and> get_prop (Obj [(''status'', Num 1), (''name'', Str ''MALFORMED_QUERY'')]) ''result''
     = Inr Undefined
   \<and> snd (fetchFlowVersions (test_libs [] [None, Some ''json'', Some []]
               (Obj [(''status'', Num 1), (''name'', Str ''MALFORMED_QUERY'')])) [])
     = Inl TypeError"
proof -
  let ?ok = "Obj [(''status'', Num 0), (''result'', Obj [(''records'', Arr [] [])])]"
  let ?err = "Obj [(''status'', Num 1), (''name'', Str ''MALFORMED_QUERY'')]"
  let ?args = "[''data'', ''query'', ''--use-tooling-api'', ''--json'', ''--query'',
        [CHR 0x22]
        @ ''SELECT Id, Definition.DeveloperName, VersionNumber, Status FROM Flow WHERE Definition.DeveloperName IN ()''
        @ [CHR 0x22]]"
  have 1: "spawnSync (test_libs [] [None, Some ''json'', Some []] r) ''sf'' ?args
             = Some [None, Some ''json'', Some []]" for r
    by (simp add: test_libs_def)
  have 2: "filter (\<lambda>entry. entry \<noteq> [])
             (List.map_filter (\<lambda>entry. entry) [None, Some ''json'', Some []]) = ''json'' # []"
    by (simp add: List.map_filter_def)
  have 3: "JSON_parse (test_libs [] [None, Some ''json'', Some []] r) ''json'' = Some r" for r
    by (simp add: test_libs_def)
  have 4: "bindE (get_prop ?ok ''result'') (\<lambda>result. get_prop result ''records'')
             = Inr (Arr [] [])"
    by simp
  have 5: "get_prop ?err ''result'' = Inr Undefined"
    by simp
  from fetchFlowVersions_empty [OF 1 2 3, of ?ok "[]"] 4
  have a: "snd (fetchFlowVersions (test_libs [] [None, Some ''json'', Some []] ?ok) []) = Inr []"
    by blast
  from fetchFlowVersions_empty [OF 1 2 3, of ?err] 5
  have b: "snd (fetchFlowVersions (test_libs [] [None, Some ''json'', Some []] ?err) [])
             = Inl TypeError"
    by blast
  from a b 1 [of ?ok] 2 3 [of ?ok] 3 [of ?err] 4 5 show ?thesis
    by simp
qed

subsection \<open>C7: \<^verbatim>\<open>updateManifest\<close> twice\<close>

text \<open>
  C7, as stated, fails. The entry \<^verbatim>\<open>Flow\<close> has the members \<^verbatim>\<open>A\<close> and \<^verbatim>\<open>B\<close>; updated
  with \<^verbatim>\<open>["A"]\<close>, a subset, it has the member \<^verbatim>\<open>A\<close> only: the document has changed.
  And on a document without the entry, two updates with \<^verbatim>\<open>["A", "A"]\<close> do not give
  what one update gives.
\<close>

theorem updateManifest_subset_not_noop:
  "updateManifest_parsed
     (Obj [(''Package'', Obj [(''types'',
        Arr [Obj [(''members'', Arr [Str ''A'', Str ''B''] []), (''name'', Str ''Flow'')]] [])])])
     [''A''] ''Flow''
   = Inr (Obj [(''Package'', Obj [(''types'',
        Arr [Obj [(''members'', Arr [Str ''A''] []), (''name'', Str ''Flow'')]] [])])])
   \<and> updateManifest_parsed
     (Obj [(''Package'', Obj [(''types'',
        Arr [Obj [(''members'', Arr [Str ''A'', Str ''B''] []), (''name'', Str ''Flow'')]] [])])])
     [''A''] ''Flow''
   \<noteq> Inr (Obj [(''Package'', Obj [(''types'',
        Arr [Obj [(''members'', Arr [Str ''A'', Str ''B''] []), (''name'', Str ''Flow'')]] [])])])
   \<and> bindE (updateManifest_parsed (Obj [(''Package'', Obj [(''types'', Arr [] [])])])
              [''A'', ''A''] ''Flow'')
        (\<lambda>manifest'. updateManifest_parsed manifest' [''A'', ''A''] ''Flow'')
      \<noteq> updateManifest_parsed (Obj [(''Package'', Obj [(''types'', Arr [] [])])])
              [''A'', ''A''] ''Flow''"
  by (simp add: updateManifest_parsed_def merge_types_def new_Set_def Set_add_def)

text \<open>
  C7, amended: when the new members have no duplicates or the document already has an
  entry of that name, a second \<^verbatim>\<open>updateManifest\<close> with the same members leaves the
  result of the first as it is, in both files.
\<close>

theorem updateManifest_twice:
  assumes "distinct members
           \<or> (\<exists>i. bindE (types_of manifest) (\<lambda>t. find_name (fst (as_array t)) type)
                     = Inr (Some i))"
  shows "(updateManifest_parsed manifest members type = Inr manifest'
            \<longrightarrow> updateManifest_parsed manifest' members type = Inr manifest')
       \<and> (updateManifest_parsed_flowDelete manifest members type = Inr manifest'
            \<longrightarrow> updateManifest_parsed_flowDelete manifest' members type = Inr manifest')"
proof (intro conjI impI)
  assume m: "updateManifest_parsed manifest members type = Inr manifest'"
  then obtain Package t0 Package1 types Package2 where
    1: "get_prop manifest ''Package'' = Inr Package" and 2: "get_prop Package ''types'' = Inr t0"
    and 3: "set_prop Package ''types'' (if nullish t0 then Arr [] [] else t0) = Inr Package1"
    and 4: "merge_types (if nullish t0 then Arr [] [] else t0) members type = Inr types"
    and 5: "set_prop Package1 ''types'' types = Inr Package2"
    and 6: "set_prop manifest ''Package'' Package2 = Inr manifest'"
    and 7: "is_ref manifest" and 8: "is_ref Package"
    by (rule updateManifest_parsed_Inr)
  let ?t1 = "if nullish t0 then Arr [] [] else t0"
  have h: "distinct members \<or> (\<exists>i. find_name (fst (as_array ?t1)) type = Inr (Some i))"
  proof (cases "distinct members")
    case True
    then show ?thesis by simp
  next
    case False
    with assms 1 2 obtain i where i: "find_name (fst (as_array t0)) type = Inr (Some i)"
      by (auto simp: types_of_def)
    then have "\<not> nullish t0"
      using find_name_nullish [of t0 type] by auto
    with i show ?thesis by auto
  qed
  from 3 8 have r1: "is_ref Package1"
    by (simp add: is_ref_set)
  have a: "get_prop manifest' ''Package'' = Inr Package2"
    using 7 6 by (rule get_set_same)
  have b: "get_prop Package2 ''types'' = Inr types"
    using r1 5 by (rule get_set_same)
  have nn: "\<not> nullish types"
    using 4 by (rule merge_types_isArray)
  have c: "merge_types types members type = Inr types"
    using 4 h by (rule merge_types_idem)
  have d: "set_prop Package2 ''types'' types = Inr Package2"
    using 5 by (rule set_prop_again)
  have e: "set_prop manifest' ''Package'' Package2 = Inr manifest'"
    using 6 by (rule set_prop_again)
  show "updateManifest_parsed manifest' members type = Inr manifest'"
    by (simp add: updateManifest_parsed_def a b c d e nn)
next
  assume m: "updateManifest_parsed_flowDelete manifest members type = Inr manifest'"
  then obtain Package t types Package2 where
    1: "get_prop manifest ''Package'' = Inr Package" and 2: "get_prop Package ''types'' = Inr t"
    and 3: "merge_types t members type = Inr types"
    and 4: "set_prop Package ''types'' types = Inr Package2"
    and 5: "set_prop manifest ''Package'' Package2 = Inr manifest'"
    and 6: "is_ref manifest" and 7: "is_ref Package"
    by (rule updateManifest_parsed_flowDelete_Inr)
  from assms 1 2 have h: "distinct members \<or> (\<exists>i. find_name (fst (as_array t)) type = Inr (Some i))"
    by (simp add: types_of_def)
  have a: "get_prop manifest' ''Package'' = Inr Package2"
    using 6 5 by (rule get_set_same)
  have b: "get_prop Package2 ''types'' = Inr types"
    using 7 4 by (rule get_set_same)
  have c: "merge_types types members type = Inr types"
    using 3 h by (rule merge_types_idem)
  have d: "set_prop Package2 ''types'' types = Inr Package2"
    using 4 by (rule set_prop_again)
  have e: "set_prop manifest' ''Package'' Package2 = Inr manifest'"
    using 5 by (rule set_prop_again)
  show "updateManifest_parsed_flowDelete manifest' members type = Inr manifest'"
    by (simp add: updateManifest_parsed_flowDelete_def a b c d e)
qed

text \<open>
  C7, amended, at the document with the entries \<^verbatim>\<open>ApexClass\<close> and \<^verbatim>\<open>Flow\<close>, updated
  with \<^verbatim>\<open>["C", "A", "C"]\<close> for \<^verbatim>\<open>Flow\<close>.
\<close>

theorem updateManifest_twice_witness:
  "(distinct [''C'', ''A'', ''C'']
     \<or> (\<exists>i. bindE (types_of sample_manifest) (\<lambda>t. find_name (fst (as_array t)) ''Flow'')
               = Inr (Some i)))
   \<and> updateManifest_parsed sample_manifest [''C'', ''A'', ''C''] ''Flow'' = Inr sample_updated
   \<and> updateManifest_parsed_flowDelete sample_manifest [''C'', ''A'', ''C''] ''Flow''
       = Inr sample_updated
   \<and> updateManifest_parsed sample_updated [''C'', ''A'', ''C''] ''Flow'' = Inr sample_updated
   \<and> updateManifest_parsed_flowDelete sample_updated [''C'', ''A'', ''C''] ''Flow''
       = Inr sample_updated"
proof -
  have h: "distinct [''C'', ''A'', ''C'']
     \<or> (\<exists>i. bindE (types_of sample_manifest) (\<lambda>t. find_name (fst (as_array t)) ''Flow'')
               = Inr (Some i))"
    by (simp add: types_of_def sample_manifest_def sample_types_def)
  have 1: "updateManifest_parsed sample_manifest [''C'', ''A'', ''C''] ''Flow'' = Inr sample_updated"
    by (simp add: updateManifest_parsed_def merge_types_def new_Set_def Set_add_def
        sample_manifest_def sample_types_def sample_updated_def)
  have 2: "updateManifest_parsed_flowDelete sample_manifest [''C'', ''A'', ''C''] ''Flow''
             = Inr sample_updated"
    by (simp add: updateManifest_parsed_flowDelete_def merge_types_def new_Set_def Set_add_def
        sample_manifest_def sample_types_def sample_updated_def)
  from updateManifest_twice [OF h, of sample_updated] 1 2 h show ?thesis
    by blast
qed

subsection \<open>C8: the type lookup\<close>

text \<open>
  C8 at its failing input: \<^verbatim>\<open>filterType\<close> of \<^verbatim>\<open>src/flowDelete.js\<close> returns the
  single member \<^verbatim>\<open>A\<close> as the string it was parsed to, and the list of the one member
  \<^verbatim>\<open>A\<close> as a list: two results. \<^verbatim>\<open>filterType\<close> of \<^verbatim>\<open>src/flow-delete.js\<close> returns
  the list for the single member.
\<close>

theorem filterType_flowDelete_scalar_member:
  "filterType_flowDelete (Obj [(''Package'', Obj [(''types'',
       Obj [(''members'', Str ''A''), (''name'', Str ''Flow'')])])]) ''Flow''
     = Inr (Obj [(''members'', Str ''A''), (''name'', Str ''Flow'')])
   \<and> filterType_flowDelete (Obj [(''Package'', Obj [(''types'',
       Obj [(''members'', Arr [Str ''A''] []), (''name'', Str ''Flow'')])])]) ''Flow''
     = Inr (Obj [(''members'', Arr [Str ''A''] []), (''name'', Str ''Flow'')])
   \<and> filterType (Obj [(''Package'', Obj [(''types'',
       Obj [(''members'', Str ''A''), (''name'', Str ''Flow'')])])]) ''Flow''
     = Inr (Obj [(''members'', Arr [Str ''A''] []), (''name'', Str ''Flow'')])"
  by (simp add: filterType_flowDelete_def filterType_def)

subsection \<open>C9: documents that are not manifests\<close>

text \<open>
  C9, as stated, fails. A document whose \<^verbatim>\<open>types\<close> is the text \<^verbatim>\<open>junk\<close> is updated
  and written. A document without \<^verbatim>\<open>Package\<close> ends \<^verbatim>\<open>updateManifest\<close> with a
  \<^verbatim>\<open>TypeError\<close>, the only kind of error the function itself raises.
\<close>

theorem updateManifest_accepts_malformed_types:
  "updateManifest
     (test_libs [(''<Package><types>junk</types></Package>'',
                  Obj [(''Package'', Obj [(''types'', Str ''junk'')])])] [] Null)
     [''package.xml'' \<mapsto> ''<Package><types>junk</types></Package>'']
     ''package.xml'' [''A''] ''Flow''
   = (Inr (), [''package.xml'' \<mapsto> ''<rewritten/>''])
   \<and> updateManifest
     (test_libs [(''<Other/>'', Obj [(''Other'', Str [])])] [] Null)
     [''package.xml'' \<mapsto> ''<Other/>'']
     ''package.xml'' [''A''] ''Flow''
   = (Inl TypeError, [''package.xml'' \<mapsto> ''<Other/>''])"
  by (simp add: updateManifest_def readFile_def writeFile_def test_libs_def
      updateManifest_parsed_def merge_types_def)

text \<open>
  C9, amended: when the file parses to a document without \<^verbatim>\<open>Package\<close>, both versions
  of \<^verbatim>\<open>updateManifest\<close> end with a \<^verbatim>\<open>TypeError\<close> and every file is as it was.
\<close>

theorem updateManifest_without_Package:
  assumes "readFile fs path = Inr data" and "parse L data = Inr manifest"
    and "get_prop manifest ''Package'' = Inr Package" and "nullish Package"
  shows "updateManifest L fs path members type = (Inl TypeError, fs)
       \<and> updateManifest_flowDelete L fs path members type = (Inl TypeError, fs)"
proof -
  from assms(4) have "get_prop Package ''types'' = Inl TypeError"
    by (cases Package) simp_all
  with assms(1,2,3) show ?thesis
    by (simp add: updateManifest_def updateManifest_flowDelete_def
        updateManifest_parsed_def updateManifest_parsed_flowDelete_def)
qed

text \<open>
  C9, amended, at a file whose document has the root \<^verbatim>\<open>Other\<close>.
\<close>

theorem updateManifest_without_Package_witness:
  "readFile [''package.xml'' \<mapsto> ''<Other/>''] ''package.xml'' = Inr ''<Other/>''
   \<and> parse (test_libs [(''<Other/>'', Obj [(''Other'', Str [])])] [] Null) ''<Other/>''
       = Inr (Obj [(''Other'', Str [])])
   \<and> get_prop (Obj [(''Other'', Str [])]) ''Package'' = Inr Undefined
   \<and> nullish Undefined
   \<and> updateManifest (test_libs [(''<Other/>'', Obj [(''Other'', Str [])])] [] Null)
        [''package.xml'' \<mapsto> ''<Other/>''] ''package.xml'' [''A''] ''Flow''
       = (Inl TypeError, [''package.xml'' \<mapsto> ''<Other/>''])
   \<and> updateManifest_flowDelete (test_libs [(''<Other/>'', Obj [(''Other'', Str [])])] [] Null)
        [''package.xml'' \<mapsto> ''<Other/>''] ''package.xml'' [''A''] ''Flow''
       = (Inl TypeError, [''package.xml'' \<mapsto> ''<Other/>''])"
proof -
  let ?L = "test_libs [(''<Other/>'', Obj [(''Other'', Str [])])] [] Null"
  have 1: "readFile [''package.xml'' \<mapsto> ''<Other/>''] ''package.xml'' = Inr ''<Other/>''"
    by (simp add: readFile_def)
  have 2: "parse ?L ''<Other/>'' = Inr (Obj [(''Other'', Str [])])"
    by (simp add: test_libs_def)
  have 3: "get_prop (Obj [(''Other'', Str [])]) ''Package'' = Inr Undefined"
    by simp
  have 4: "nullish Undefined"
    by simp
  from updateManifest_without_Package [OF 1 2 3 4] 1 2 3 4 show ?thesis
    by blast
qed

subsection \<open>C10: the two versions of \<^verbatim>\<open>updateManifest\<close>\<close>

text \<open>
  C10 at its failing input, a document whose \<^verbatim>\<open>Package\<close> has no \<^verbatim>\<open>types\<close>:
  \<^verbatim>\<open>src/flowDelete.js\<close> ends with a \<^verbatim>\<open>TypeError\<close>, \<^verbatim>\<open>src/flow-delete.js\<close> appends
  the entry.
\<close>

theorem updateManifest_without_types:
  "updateManifest_parsed_flowDelete
     (Obj [(''Package'', Obj [(''version'', Num 60)])]) [''A''] ''Flow'' = Inl TypeError
   \<and> updateManifest_parsed
     (Obj [(''Package'', Obj [(''version'', Num 60)])]) [''A''] ''Flow''
     = Inr (Obj [(''Package'', Obj [(''version'', Num 60), (''types'',
         Arr [Obj [(''members'', Arr [Str ''A''] []), (''name'', Str ''Flow'')]] [])])])"
  by (simp add: updateManifest_parsed_def updateManifest_parsed_flowDelete_def merge_types_def)

end
